theory Spec2Isabelle
  imports Main
begin

section \<open>Data model (pbx\_registry.h)\<close>

text \<open>
  Modelled from the spec: the enumeration of the TU states is declared in \<open>pbx.h\<close>,
  which is not among the sources; these are the seven states of the specification, under
  the names that \<open>tu.c\<close> uses for them. The field \<open>state\<close> of \<open>struct tu\<close> is an
  \<open>int\<close> that only ever holds one of these enumerators.
\<close>

datatype tu_state =
  TU_ON_HOOK | TU_RINGING | TU_DIAL_TONE | TU_RING_BACK | TU_BUSY_SIGNAL | TU_CONNECTED | TU_ERROR

text \<open>A \<open>TU *\<close>: \<open>None\<close> is \<open>NULL\<close>, \<open>Some a\<close> is the address \<open>a\<close>.\<close>

type_synonym tu_ptr = "nat option"

text \<open>\<open>struct tu\<close> without its semaphore (every operation below runs alone).\<close>

record tu =
  fd :: int
  target :: tu_ptr
  state :: tu_state
  ref_count :: int

text \<open>
  The memory of the process as far as the PBX is concerned:
  \<^item> \<open>heap\<close>: the store of TU objects, indexed by address; \<open>None\<close> is a freed object;
  \<^item> \<open>PBX_REGISTRY\<close>: the array of \<open>struct pbx\<close>, of length \<open>PBX_MAX_EXTENSIONS\<close>;
  \<^item> \<open>sent\<close>: every \<open>dprintf (fd, text)\<close> call, in the order issued;
  \<^item> \<open>closed\<close>: every \<open>close (fd)\<close> call, in the order issued;
  \<^item> \<open>mem_avail\<close>: how many more objects \<open>malloc\<close> can hand out.
\<close>

record pbx_world =
  heap :: "tu option list"
  PBX_REGISTRY :: "tu_ptr list"
  sent :: "(int \<times> string) list"
  closed :: "int list"
  mem_avail :: nat

text \<open>
  What C leaves undefined, or what never returns, is a value: dereferencing \<open>NULL\<close>,
  using a freed TU, waiting on a semaphore the same thread already holds, overflowing a
  signed \<open>int\<close>, reading an uninitialised pointer.
\<close>

datatype fault = Null_Deref | Use_After_Free | Self_Deadlock | Int_Overflow | Uninit_Read

definition bind :: "fault + 'a \<Rightarrow> ('a \<Rightarrow> fault + 'b) \<Rightarrow> fault + 'b" where
  "bind m f = (case m of Inl e \<Rightarrow> Inl e | Inr x \<Rightarrow> f x)"

definition INT_MAX :: int where
  "INT_MAX = 2147483647"

definition INT_MIN :: int where
  "INT_MIN = - 2147483648"

subsection \<open>Memory access\<close>

definition load :: "pbx_world \<Rightarrow> nat \<Rightarrow> fault + tu" where
  "load w a =
     (if a < length (heap w)
      then (case heap w ! a of None \<Rightarrow> Inl Use_After_Free | Some t \<Rightarrow> Inr t)
      else Inl Use_After_Free)"

definition deref :: "pbx_world \<Rightarrow> tu_ptr \<Rightarrow> fault + (nat \<times> tu)" where
  "deref w p =
     (case p of
        None \<Rightarrow> Inl Null_Deref
      | Some a \<Rightarrow> bind (load w a) (\<lambda>t. Inr (a, t)))"

text \<open>Assignments to one field of the live object at address \<open>a\<close>.\<close>

definition modify :: "nat \<Rightarrow> (tu \<Rightarrow> tu) \<Rightarrow> pbx_world \<Rightarrow> pbx_world" where
  "modify a f w = w\<lparr>heap := (heap w)[a := map_option f (heap w ! a)]\<rparr>"

definition set_state :: "nat \<Rightarrow> tu_state \<Rightarrow> pbx_world \<Rightarrow> pbx_world" where
  "set_state a s = modify a (\<lambda>t. t\<lparr>state := s\<rparr>)"

definition set_target :: "nat \<Rightarrow> tu_ptr \<Rightarrow> pbx_world \<Rightarrow> pbx_world" where
  "set_target a p = modify a (\<lambda>t. t\<lparr>target := p\<rparr>)"

definition set_fd :: "nat \<Rightarrow> int \<Rightarrow> pbx_world \<Rightarrow> pbx_world" where
  "set_fd a n = modify a (\<lambda>t. t\<lparr>fd := n\<rparr>)"

definition set_ref_count :: "nat \<Rightarrow> int \<Rightarrow> pbx_world \<Rightarrow> pbx_world" where
  "set_ref_count a n = modify a (\<lambda>t. t\<lparr>ref_count := n\<rparr>)"

definition free :: "nat \<Rightarrow> pbx_world \<Rightarrow> pbx_world" where
  "free a w = w\<lparr>heap := (heap w)[a := None], mem_avail := mem_avail w + 1\<rparr>"

definition close :: "int \<Rightarrow> pbx_world \<Rightarrow> pbx_world" where
  "close n w = w\<lparr>closed := closed w @ [n]\<rparr>"

subsection \<open>Output\<close>

definition crlf :: string where
  "crlf = [CHR 0x0D, CHR 0x0A]"

fun show_nat :: "nat \<Rightarrow> string" where
  "show_nat n =
     (if n < 10 then [''0123456789'' ! n]
      else show_nat (n div 10) @ [''0123456789'' ! (n mod 10)])"

declare show_nat.simps [simp del]

text \<open>The conversion \<open>%d\<close>.\<close>

definition show_int :: "int \<Rightarrow> string" where
  "show_int i = (if i < 0 then CHR ''-'' # show_nat (nat (- i)) else show_nat (nat i))"

definition dprintf :: "int \<Rightarrow> string \<Rightarrow> pbx_world \<Rightarrow> pbx_world" where
  "dprintf n s w = w\<lparr>sent := sent w @ [(n, s)]\<rparr>"

section \<open>The telephone unit (tu.c)\<close>

definition tu_init :: "pbx_world \<Rightarrow> int \<Rightarrow> pbx_world \<times> tu_ptr" where
  "tu_init w n =
     (if mem_avail w = 0 then (w, None)
      else (w\<lparr>heap := heap w @ [Some \<lparr>fd = n, target = None, state = TU_ON_HOOK, ref_count = 1\<rparr>],
               mem_avail := mem_avail w - 1\<rparr>,
            Some (length (heap w))))"

definition tu_ref :: "pbx_world \<Rightarrow> tu_ptr \<Rightarrow> fault + pbx_world" where
  "tu_ref w tu =
     bind (deref w tu) (\<lambda>(a, t).
       if ref_count t = INT_MAX then Inl Int_Overflow
       else Inr (set_ref_count a (ref_count t + 1) w))"

definition tu_unref :: "pbx_world \<Rightarrow> tu_ptr \<Rightarrow> fault + pbx_world" where
  "tu_unref w tu =
     bind (deref w tu) (\<lambda>(a, t).
       if ref_count t = INT_MIN then Inl Int_Overflow
       else
         let w1 = set_ref_count a (ref_count t - 1) w
         in if ref_count t - 1 = 0 then Inr (free a (close (fd t) w1))
            else Inr w1)"

definition tu_fileno :: "pbx_world \<Rightarrow> tu_ptr \<Rightarrow> fault + int" where
  "tu_fileno w tu =
     (case tu of
        None \<Rightarrow> Inr (- 1)
      | Some a \<Rightarrow> bind (load w a) (\<lambda>t. Inr (fd t)))"

definition tu_extension :: "pbx_world \<Rightarrow> tu_ptr \<Rightarrow> fault + int" where
  "tu_extension w tu = tu_fileno w tu"

definition tu_set_extension :: "pbx_world \<Rightarrow> tu_ptr \<Rightarrow> int \<Rightarrow> fault + (pbx_world \<times> int)" where
  "tu_set_extension w tu ext =
     (case tu of
        None \<Rightarrow> Inr (w, - 1)
      | Some a \<Rightarrow> bind (load w a) (\<lambda>t. Inr (set_fd a ext w, 0)))"

text \<open>
  The chain of \<open>if\<close>s that re-emits the current state in \<open>tu_dial\<close> (it stands twice in
  the function, once for a \<open>NULL\<close> target and once for a TU that is not in
  \<open>TU_DIAL_TONE\<close>). The line for \<open>TU_CONNECTED\<close> reads \<open>tu->target->fd\<close>.
\<close>

definition dial_notify :: "pbx_world \<Rightarrow> tu \<Rightarrow> fault + pbx_world" where
  "dial_notify w t =
     (if state t = TU_ON_HOOK then Inr (dprintf (fd t) (''ON HOOK '' @ show_int (fd t) @ crlf) w)
      else if state t = TU_RINGING then Inr (dprintf (fd t) (''RINGING'' @ crlf) w)
      else if state t = TU_RING_BACK then Inr (dprintf (fd t) (''RING BACK'' @ crlf) w)
      else if state t = TU_BUSY_SIGNAL then Inr (dprintf (fd t) (''BUSY SIGNAL'' @ crlf) w)
      else if state t = TU_CONNECTED then
        bind (deref w (target t)) (\<lambda>(b, p).
          Inr (dprintf (fd t) (''CONNECTED '' @ show_int (fd p) @ crlf) w))
      else if state t = TU_ERROR then Inr (dprintf (fd t) (''ERROR'' @ crlf) w)
      else Inr w)"

definition tu_dial :: "pbx_world \<Rightarrow> tu_ptr \<Rightarrow> tu_ptr \<Rightarrow> fault + (pbx_world \<times> int)" where
  "tu_dial w tu tgt =
     (case tu of
        None \<Rightarrow> Inr (w, - 1)
      | Some a \<Rightarrow>
          bind (load w a) (\<lambda>t.
            case tgt of
              None \<Rightarrow>
                if state t = TU_DIAL_TONE
                then Inr (dprintf (fd t) (''ERROR'' @ crlf) (set_state a TU_ERROR w), - 1)
                else bind (dial_notify w t) (\<lambda>w'. Inr (w', 0))
            | Some b \<Rightarrow>
                if a = b
                then Inr (dprintf (fd t) (''BUSY SIGNAL'' @ crlf) (set_state a TU_BUSY_SIGNAL w), 0)
                else
                  bind (load w b) (\<lambda>g.
                    if state t \<noteq> TU_DIAL_TONE
                    then bind (dial_notify w t) (\<lambda>w'. Inr (w', 0))
                    else if target g \<noteq> None \<or> state g \<noteq> TU_ON_HOOK
                    then Inr (dprintf (fd t) (''BUSY SIGNAL'' @ crlf)
                                (set_state a TU_BUSY_SIGNAL w), 0)
                    else
                      let w1 = set_target a (Some b) w;
                          w2 = set_target b (Some a) w1;
                          w3 = set_state a TU_RING_BACK w2;
                          w4 = set_state b TU_RINGING w3;
                          w5 = dprintf (fd t) (''RING BACK'' @ crlf) w4;
                          w6 = dprintf (fd g) (''RINGING'' @ crlf) w5
                      in bind (tu_ref w6 (Some a)) (\<lambda>w7.
                         bind (tu_ref w7 (Some b)) (\<lambda>w8. Inr (w8, 0))))))"

text \<open>The chain of \<open>tu_pickup\<close> for a TU that is neither on hook nor ringing.\<close>

definition pickup_notify :: "pbx_world \<Rightarrow> tu \<Rightarrow> fault + pbx_world" where
  "pickup_notify w t =
     (if state t = TU_DIAL_TONE then Inr (dprintf (fd t) (''DIAL TONE'' @ crlf) w)
      else if state t = TU_RING_BACK then Inr (dprintf (fd t) (''RING BACK'' @ crlf) w)
      else if state t = TU_BUSY_SIGNAL then Inr (dprintf (fd t) (''BUSY SIGNAL'' @ crlf) w)
      else if state t = TU_CONNECTED then
        bind (deref w (target t)) (\<lambda>(b, p).
          Inr (dprintf (fd t) (''CONNECTED '' @ show_int (fd p) @ crlf) w))
      else if state t = TU_ERROR then Inr (dprintf (fd t) (''ERROR'' @ crlf) w)
      else Inr w)"

definition tu_pickup :: "pbx_world \<Rightarrow> tu_ptr \<Rightarrow> fault + (pbx_world \<times> int)" where
  "tu_pickup w tu =
     (case tu of
        None \<Rightarrow> Inr (w, - 1)
      | Some a \<Rightarrow>
          bind (load w a) (\<lambda>t.
            if state t \<noteq> TU_ON_HOOK \<and> state t \<noteq> TU_RINGING
            then bind (pickup_notify w t) (\<lambda>w'. Inr (w', 0))
            else if state t = TU_ON_HOOK
            then Inr (dprintf (fd t) (''DIAL TONE'' @ crlf) (set_state a TU_DIAL_TONE w), 0)
            else if state t = TU_RINGING
            then
              bind (deref w (target t)) (\<lambda>(b, p).
                if b = a then Inl Self_Deadlock
                else
                  let w1 = set_state a TU_CONNECTED w;
                      w2 = set_state b TU_CONNECTED w1;
                      w3 = dprintf (fd t) (''CONNECTED '' @ show_int (fd p) @ crlf) w2;
                      w4 = dprintf (fd p) (''CONNECTED '' @ show_int (fd t) @ crlf) w3
                  in Inr (w4, 0))
            else Inr (w, - 1)))"

definition tu_hangup :: "pbx_world \<Rightarrow> tu_ptr \<Rightarrow> fault + (pbx_world \<times> int)" where
  "tu_hangup w tu =
     (case tu of
        None \<Rightarrow> Inr (w, - 1)
      | Some a \<Rightarrow>
          bind (load w a) (\<lambda>t.
            if state t = TU_CONNECTED \<or> state t = TU_RINGING
            then
              bind (deref w (target t)) (\<lambda>(b, p).
                if b = a then Inl Self_Deadlock
                else
                  let w1 = set_state a TU_ON_HOOK w;
                      w2 = set_state b TU_DIAL_TONE w1;
                      w3 = set_target b None w2;
                      w4 = dprintf (fd t) (''ON HOOK '' @ show_int (fd t) @ crlf) w3;
                      w5 = dprintf (fd p) (''DIAL TONE'' @ crlf) w4
                  in bind (tu_unref w5 (Some b)) (\<lambda>w6.
                     bind (tu_unref (set_target a None w6) (Some a)) (\<lambda>w7. Inr (w7, 0))))
            else if state t = TU_RING_BACK
            then
              bind (deref w (target t)) (\<lambda>(b, p).
                if b = a then Inl Self_Deadlock
                else
                  let w1 = set_state a TU_ON_HOOK w;
                      w2 = set_state b TU_ON_HOOK w1;
                      w3 = set_target b None w2;
                      w4 = dprintf (fd t) (''ON HOOK '' @ show_int (fd t) @ crlf) w3;
                      w5 = dprintf (fd p) (''ON HOOK '' @ show_int (fd p) @ crlf) w4
                  in bind (tu_unref w5 (Some b)) (\<lambda>w6.
                     bind (tu_unref (set_target a None w6) (Some a)) (\<lambda>w7. Inr (w7, 0))))
            else if state t = TU_DIAL_TONE \<or> state t = TU_BUSY_SIGNAL \<or> state t = TU_ERROR
            then Inr (dprintf (fd t) (''ON HOOK '' @ show_int (fd t) @ crlf)
                        (set_state a TU_ON_HOOK w), 0)
            else if state t = TU_ON_HOOK then Inr (w, 0)
            else Inr (w, - 1)))"

text \<open>The chain of \<open>tu_chat\<close>, after the message has gone to the peer.\<close>

definition chat_notify :: "pbx_world \<Rightarrow> tu \<Rightarrow> fault + pbx_world" where
  "chat_notify w t =
     (if state t = TU_ON_HOOK then Inr (dprintf (fd t) (''ON HOOK '' @ show_int (fd t) @ crlf) w)
      else if state t = TU_RINGING then Inr (dprintf (fd t) (''RINGING'' @ crlf) w)
      else if state t = TU_DIAL_TONE then Inr (dprintf (fd t) (''DIAL TONE'' @ crlf) w)
      else if state t = TU_RING_BACK then Inr (dprintf (fd t) (''RING BACK'' @ crlf) w)
      else if state t = TU_BUSY_SIGNAL then Inr (dprintf (fd t) (''BUSY SIGNAL'' @ crlf) w)
      else if state t = TU_CONNECTED then
        bind (deref w (target t)) (\<lambda>(b, p).
          Inr (dprintf (fd t) (''CONNECTED '' @ show_int (fd p) @ crlf) w))
      else if state t = TU_ERROR then Inr (dprintf (fd t) (''ERROR'' @ crlf) w)
      else Inr w)"

definition tu_chat :: "pbx_world \<Rightarrow> tu_ptr \<Rightarrow> string \<Rightarrow> fault + (pbx_world \<times> int)" where
  "tu_chat w tu msg =
     (case tu of
        None \<Rightarrow> Inr (w, - 1)
      | Some a \<Rightarrow>
          bind (load w a) (\<lambda>t.
            if state t \<noteq> TU_CONNECTED then Inr (w, - 1)
            else
              bind (deref w (target t)) (\<lambda>(b, p).
                if b = a then Inl Self_Deadlock
                else
                  bind (chat_notify (dprintf (fd p) (''chat '' @ msg @ crlf) w) t)
                    (\<lambda>w'. Inr (w', 0)))))"

section \<open>The exchange (pbx.c)\<close>

text \<open>The index of the first slot that satisfies \<open>P\<close>: the \<open>for\<close> loops over the registry.\<close>

fun first_slot :: "(tu_ptr \<Rightarrow> bool) \<Rightarrow> tu_ptr list \<Rightarrow> nat option" where
  "first_slot P [] = None"
| "first_slot P (p # ps) = (if P p then Some 0 else map_option Suc (first_slot P ps))"

text \<open>
  \<open>PBX_MAX_EXTENSIONS\<close> is declared in a header that is not part of the sources at hand: it
  is the parameter \<open>n\<close>. \<open>m\<close> is the number of objects the allocator can provide.
\<close>

definition pbx_init :: "nat \<Rightarrow> nat \<Rightarrow> pbx_world" where
  "pbx_init n m =
     \<lparr>heap = [], PBX_REGISTRY = replicate n None, sent = [], closed = [], mem_avail = m\<rparr>"

definition pbx_register :: "pbx_world \<Rightarrow> tu_ptr \<Rightarrow> int \<Rightarrow> pbx_world \<times> int" where
  "pbx_register w tu ext =
     (case first_slot (\<lambda>p. p = None) (PBX_REGISTRY w) of
        Some i \<Rightarrow>
          (dprintf ext (''ON HOOK '' @ show_int ext @ crlf)
             (w\<lparr>PBX_REGISTRY := (PBX_REGISTRY w)[i := tu]\<rparr>), 0)
      | None \<Rightarrow> (w, - 1))"

definition pbx_unregister :: "pbx_world \<Rightarrow> tu_ptr \<Rightarrow> fault + (pbx_world \<times> int)" where
  "pbx_unregister w tu =
     (case first_slot (\<lambda>p. p = tu) (PBX_REGISTRY w) of
        Some i \<Rightarrow>
          bind (deref w tu) (\<lambda>(a, t).
            bind (if state t \<noteq> TU_CONNECTED \<and> state t \<noteq> TU_RINGING \<and> state t \<noteq> TU_RING_BACK
                  then bind (tu_hangup w tu) (\<lambda>(w1, r). tu_unref w1 tu)
                  else bind (tu_hangup w tu) (\<lambda>(w1, r). Inr w1))
              (\<lambda>w2. Inr (w2\<lparr>PBX_REGISTRY := (PBX_REGISTRY w2)[i := None]\<rparr>, 0)))
      | None \<Rightarrow> Inr (w, - 1))"

text \<open>
  The inner loop of \<open>pbx_dial\<close>: the first slot \<open>j\<close> with
  \<open>tu_fileno (PBX_REGISTRY[j]) == ext\<close>, if there is one. \<open>tu_fileno\<close> reads the TU the
  slot points to; an empty slot has the number \<open>-1\<close>.
\<close>

fun find_ext :: "pbx_world \<Rightarrow> tu_ptr list \<Rightarrow> int \<Rightarrow> fault + tu_ptr option" where
  "find_ext w [] ext = Inr None"
| "find_ext w (p # ps) ext =
     bind (tu_fileno w p) (\<lambda>n. if n = ext then Inr (Some p) else find_ext w ps ext)"

definition pbx_dial :: "pbx_world \<Rightarrow> tu_ptr \<Rightarrow> int \<Rightarrow> fault + (pbx_world \<times> int)" where
  "pbx_dial w tu ext =
     (case first_slot (\<lambda>p. p = tu) (PBX_REGISTRY w) of
        Some i \<Rightarrow>
          bind (find_ext w (PBX_REGISTRY w) ext) (\<lambda>found.
            case found of
              Some p \<Rightarrow> bind (tu_dial w tu p) (\<lambda>(w', r). Inr (w', 0))
            | None \<Rightarrow> bind (tu_dial w tu None) (\<lambda>(w', r). Inr (w', 0)))
      | None \<Rightarrow> Inr (w, - 1))"

section \<open>The client service (server.c)\<close>

definition NUL :: char where
  "NUL = CHR 0x00"

text \<open>
  The C string that starts at index \<open>i\<close> of a buffer. The buffer is the list of the bytes
  read from the client; its terminating \<open>NUL\<close> is the position just after the list.
\<close>

definition c_str :: "string \<Rightarrow> nat \<Rightarrow> string" where
  "c_str buf i = takeWhile (\<lambda>c. c \<noteq> NUL) (drop i buf)"

text \<open>
  The loop of \<open>pbx_client_service\<close> that cuts the line into arguments, in place:
  \<open>cur\<close> is the index the pointer \<open>curr\<close> stands at, \<open>arg2_start\<close> the index the second argument
  starts at.
\<close>

function scan_args :: "string \<Rightarrow> nat \<Rightarrow> nat \<Rightarrow> nat option \<Rightarrow> string \<times> nat \<times> nat option" where
  "scan_args buf cur argc arg2_start =
     (if cur < length buf \<and> buf ! cur \<noteq> NUL then
        if argc = 2 then (buf, argc, arg2_start)
        else if argc = 1 \<and> c_str buf 0 = ''chat'' then (buf, argc, arg2_start)
        else if buf ! cur = CHR '' ''
        then scan_args (buf[cur := NUL]) (cur + 1) (argc + 1) (Some (cur + 1))
        else scan_args buf (cur + 1) argc arg2_start
      else (buf, argc, arg2_start))"
  by pat_completeness auto
termination
  by (relation "measure (\<lambda>(buf, cur, argc, arg2_start). length buf - cur)") auto

declare scan_args.simps [simp del]

text \<open>
  \<open>atoi\<close> of the C library: white space, an optional sign, then the longest run of decimal
  digits (none gives 0). A value that does not fit an \<open>int\<close> is undefined behaviour:
  \<open>None\<close>.
\<close>

definition isspace :: "char \<Rightarrow> bool" where
  "isspace c = (c \<in> set [CHR '' '', CHR 0x09, CHR 0x0A, CHR 0x0B, CHR 0x0C, CHR 0x0D])"

definition isdigit :: "char \<Rightarrow> bool" where
  "isdigit c = (c \<in> set ''0123456789'')"

definition digit_val :: "char \<Rightarrow> int" where
  "digit_val c = of_char c - 48"

fun digits :: "int \<Rightarrow> string \<Rightarrow> int" where
  "digits acc [] = acc"
| "digits acc (c # cs) = (if isdigit c then digits (10 * acc + digit_val c) cs else acc)"

definition atoi :: "string \<Rightarrow> int option" where
  "atoi s =
     (let r = dropWhile isspace s;
          v = (case r of
                 [] \<Rightarrow> 0
               | c # cs \<Rightarrow>
                   if c = CHR ''-'' then - digits 0 cs
                   else if c = CHR ''+'' then digits 0 cs
                   else digits 0 r)
      in if INT_MIN \<le> v \<and> v \<le> INT_MAX then Some v else None)"

text \<open>
  \<open>pbx_client_service\<close>, in its three parts. First the registration of a new connection:
  the result is the TU the service loop then works for, or \<open>NULL\<close> when the thread has
  given up.
\<close>

definition service_register :: "pbx_world \<Rightarrow> int \<Rightarrow> pbx_world \<times> tu_ptr" where
  "service_register w connfd =
     (case tu_init w connfd of
        (w1, None) \<Rightarrow> (close connfd w1, None)
      | (w1, Some a) \<Rightarrow>
          (case pbx_register w1 (Some a) connfd of
             (w2, r) \<Rightarrow> if r = - 1 then (close connfd w2, None) else (w2, Some a)))"

text \<open>
  One turn of the service loop for the line \<open>client_msg\<close>. With three arguments
  \<open>argv\<close> is never filled, and the last comparison reads \<open>argv[0]\<close> all the same.
\<close>

definition service_command :: "pbx_world \<Rightarrow> tu_ptr \<Rightarrow> string \<Rightarrow> fault + pbx_world" where
  "service_command w tu client_msg =
     (case scan_args client_msg 0 0 None of
        (buf, n, arg2_start) \<Rightarrow>
          let argc = n + 1;
              argv0 = c_str buf 0;
              argv1 = (case arg2_start of None \<Rightarrow> [] | Some i \<Rightarrow> c_str buf i)
          in if argc = 1 \<and> argv0 = ''pickup'' then bind (tu_pickup w tu) (\<lambda>(w', r). Inr w')
             else if argc = 1 \<and> argv0 = ''hangup'' then bind (tu_hangup w tu) (\<lambda>(w', r). Inr w')
             else if argc = 2 \<and> argv0 = ''dial'' then
               (case atoi argv1 of
                  None \<Rightarrow> Inl Int_Overflow
                | Some ext \<Rightarrow> bind (pbx_dial w tu ext) (\<lambda>(w', r). Inr w'))
             else if argc \<noteq> 1 \<and> argc \<noteq> 2 then Inl Uninit_Read
             else if argv0 = ''chat'' then
               (if argc = 1 then bind (tu_chat w tu []) (\<lambda>(w', r). Inr w')
                else bind (tu_chat w tu argv1) (\<lambda>(w', r). Inr w'))
             else Inr w)"

text \<open>The end of the thread, after the read has failed.\<close>

definition service_exit :: "pbx_world \<Rightarrow> tu_ptr \<Rightarrow> int \<Rightarrow> fault + pbx_world" where
  "service_exit w tu connfd = bind (pbx_unregister (close connfd w) tu) (\<lambda>(w', r). Inr w')"

text \<open>
  What happens to the exchange, one event after the other: a connection arrives on a
  descriptor, the client of a TU sends a line, the client of a TU goes away.
\<close>

datatype event = Connect int | Command nat string | Disconnect nat int

fun exec :: "pbx_world \<Rightarrow> event \<Rightarrow> fault + pbx_world" where
  "exec w (Connect connfd) = Inr (fst (service_register w connfd))"
| "exec w (Command a client_msg) = service_command w (Some a) client_msg"
| "exec w (Disconnect a connfd) = service_exit w (Some a) connfd"

fun run :: "pbx_world \<Rightarrow> event list \<Rightarrow> fault + pbx_world" where
  "run w [] = Inr w"
| "run w (e # es) = bind (exec w e) (\<lambda>w'. run w' es)"

section \<open>Observations and example states\<close>

text \<open>The lines written to descriptor \<open>n\<close>, oldest first.\<close>

definition lines_to :: "int \<Rightarrow> pbx_world \<Rightarrow> string list" where
  "lines_to n w = map snd (filter (\<lambda>x. fst x = n) (sent w))"

text \<open>
  State-peer consistency of one TU, and of every live TU of the store: the peer is set
  exactly in the states \<open>TU_RINGING\<close>, \<open>TU_RING_BACK\<close> and \<open>TU_CONNECTED\<close>, and a
  TU with a peer forms one of the three allowed pairs of states with it.
\<close>

definition paired_shape :: "tu_state \<Rightarrow> tu_state \<Rightarrow> bool" where
  "paired_shape s s' =
     ((s, s') \<in> set [(TU_RING_BACK, TU_RINGING), (TU_RINGING, TU_RING_BACK),
                      (TU_CONNECTED, TU_CONNECTED)])"

definition tu_consistent :: "pbx_world \<Rightarrow> tu \<Rightarrow> bool" where
  "tu_consistent w t =
     (((target t \<noteq> None) = (state t \<in> set [TU_RINGING, TU_RING_BACK, TU_CONNECTED])) \<and>
      (case target t of
         None \<Rightarrow> True
       | Some b \<Rightarrow> (case load w b of Inl e \<Rightarrow> False | Inr p \<Rightarrow> paired_shape (state t) (state p))))"

definition p2_consistent :: "pbx_world \<Rightarrow> bool" where
  "p2_consistent w = list_all (\<lambda>x. case x of None \<Rightarrow> True | Some t \<Rightarrow> tu_consistent w t) (heap w)"

text \<open>
  An exchange of four slots after one client has connected on descriptor 4, and the same
  exchange after a second client has connected on descriptor 5, the first has called
  the second and the second has answered.
\<close>

definition one_idle :: pbx_world where
  "one_idle =
     \<lparr>heap = [Some \<lparr>fd = 4, target = None, state = TU_ON_HOOK, ref_count = 1\<rparr>],
      PBX_REGISTRY = [Some 0, None, None, None],
      sent = [(4, ''ON HOOK 4'' @ crlf)],
      closed = [], mem_avail = 7\<rparr>"

definition in_call :: pbx_world where
  "in_call =
     \<lparr>heap = [Some \<lparr>fd = 4, target = Some 1, state = TU_CONNECTED, ref_count = 2\<rparr>,
              Some \<lparr>fd = 5, target = Some 0, state = TU_CONNECTED, ref_count = 2\<rparr>],
      PBX_REGISTRY = [Some 0, Some 1, None, None],
      sent = [(4, ''ON HOOK 4'' @ crlf), (5, ''ON HOOK 5'' @ crlf), (4, ''DIAL TONE'' @ crlf),
              (4, ''RING BACK'' @ crlf), (5, ''RINGING'' @ crlf),
              (5, ''CONNECTED 4'' @ crlf), (4, ''CONNECTED 5'' @ crlf)],
      closed = [], mem_avail = 6\<rparr>"

text \<open>
  The same exchange after both clients have connected and the first has picked up, and
  after the first has then reached the second, which rings.
\<close>

definition off_hook :: pbx_world where
  "off_hook =
     \<lparr>heap = [Some \<lparr>fd = 4, target = None, state = TU_DIAL_TONE, ref_count = 1\<rparr>,
              Some \<lparr>fd = 5, target = None, state = TU_ON_HOOK, ref_count = 1\<rparr>],
      PBX_REGISTRY = [Some 0, Some 1, None, None],
      sent = [(4, ''ON HOOK 4'' @ crlf), (5, ''ON HOOK 5'' @ crlf), (4, ''DIAL TONE'' @ crlf)],
      closed = [], mem_avail = 6\<rparr>"




text \<open>
  The descriptor of every cell of the store, and the relation between the descriptors
  before and after a step that frees or adds TUs but never renumbers one.
\<close>

definition fds :: "pbx_world \<Rightarrow> int option list" where
  "fds w = map (map_option fd) (heap w)"

definition kept :: "int option list \<Rightarrow> int option list \<Rightarrow> bool" where
  "kept xs ys = (length xs \<le> length ys \<and> (\<forall>i<length xs. ys ! i = None \<or> ys ! i = xs ! i))"

section \<open>Basic facts\<close>

lemma one_idle_reached: "run (pbx_init 4 8) [Connect 4] = Inr one_idle"
  by code_simp

lemma in_call_reached:
  "run (pbx_init 4 8) [Connect 4, Connect 5, Command 0 ''pickup'', Command 0 ''dial 5'',
     Command 1 ''pickup''] = Inr in_call"
  by code_simp

lemma load_one_idle:
  "load one_idle 0 = Inr \<lparr>fd = 4, target = None, state = TU_ON_HOOK, ref_count = 1\<rparr>"
  by (simp add: one_idle_def load_def)

lemma load_in_call:
  "load in_call 0 = Inr \<lparr>fd = 4, target = Some 1, state = TU_CONNECTED, ref_count = 2\<rparr>"
  "load in_call 1 = Inr \<lparr>fd = 5, target = Some 0, state = TU_CONNECTED, ref_count = 2\<rparr>"
  by (simp_all add: in_call_def load_def)

lemma show_int_examples: "show_int 4 = ''4''" "show_int 5 = ''5''"
  by code_simp+

lemma load_live: "load w a = Inr t \<Longrightarrow> a < length (heap w) \<and> heap w ! a = Some t"
  by (simp add: load_def split: if_splits option.splits)

lemma load_modify_same: "load w a = Inr t \<Longrightarrow> load (modify a f w) a = Inr (f t)"
  by (simp add: load_def modify_def split: if_splits option.splits)

lemma load_modify_other: "a \<noteq> b \<Longrightarrow> load (modify a f w) b = load w b"
  by (simp add: load_def modify_def)

lemma load_dprintf: "load (dprintf n s w) a = load w a"
  by (simp add: load_def dprintf_def)

lemma modify_modify: "modify a f (modify a g w) = modify a (f \<circ> g) w"
  by (cases "a < length (heap w)") (simp_all add: modify_def option.map_comp list_update_beyond)

lemma modify_dprintf: "modify a f (dprintf n s w) = dprintf n s (modify a f w)"
  by (simp add: modify_def dprintf_def)

lemma modify_same: "load w a = Inr t \<Longrightarrow> f t = t \<Longrightarrow> modify a f w = w"
  by (simp add: load_def modify_def list_update_same_conv split: if_splits option.splits)

section \<open>Dialling one's own extension\<close>

text \<open>
  C1 says that \<open>dial\<close> with the TU itself as target is a no-op unless the TU is in
  \<open>TU_DIAL_TONE\<close>. The code compares \<open>tu == target\<close> before it looks at the state:
  for a live TU in any state at all, \<open>tu_dial (tu, tu)\<close> sets the state to
  \<open>TU_BUSY_SIGNAL\<close>, writes \<open>BUSY SIGNAL\<close> and returns 0.
\<close>

theorem self_dial_any_state:
  assumes "load w a = Inr t"
  shows "tu_dial w (Some a) (Some a) =
         Inr (dprintf (fd t) (''BUSY SIGNAL'' @ crlf) (set_state a TU_BUSY_SIGNAL w), 0)"
  using assms by (simp add: tu_dial_def bind_def)

text \<open>The TU on descriptor 4 is on hook and dials itself: it ends in \<open>TU_BUSY_SIGNAL\<close>.\<close>

theorem self_dial_on_hook:
  "load one_idle 0 = Inr \<lparr>fd = 4, target = None, state = TU_ON_HOOK, ref_count = 1\<rparr> \<and>
   tu_dial one_idle (Some 0) (Some 0) =
     Inr (dprintf 4 (''BUSY SIGNAL'' @ crlf) (set_state 0 TU_BUSY_SIGNAL one_idle), 0) \<and>
   load (dprintf 4 (''BUSY SIGNAL'' @ crlf) (set_state 0 TU_BUSY_SIGNAL one_idle)) 0 =
     Inr \<lparr>fd = 4, target = None, state = TU_BUSY_SIGNAL, ref_count = 1\<rparr>"
  using self_dial_any_state [OF load_one_idle] load_one_idle
  by (simp add: load_dprintf set_state_def load_modify_same)

text \<open>The same through the service loop: the client on descriptor 4 sends \<open>dial 4\<close>.\<close>

lemma dial_own_number:
  "service_command one_idle (Some 0) ''dial 4'' =
   Inr (dprintf 4 (''BUSY SIGNAL'' @ crlf) (set_state 0 TU_BUSY_SIGNAL one_idle))"
  by code_simp

section \<open>State-peer consistency\<close>

lemma in_call_consistent: "p2_consistent in_call"
  by code_simp

text \<open>
  C2 says that state-peer consistency holds in every state reached between operations.
  It does not: whenever a live TU that has a peer dials itself, \<open>tu_dial\<close> moves it to
  \<open>TU_BUSY_SIGNAL\<close> and leaves the peer link in place, and the state that results is
  not consistent.
\<close>

theorem self_dial_breaks_pairing:
  assumes "load w a = Inr t" and "target t \<noteq> None"
  shows "tu_dial w (Some a) (Some a) =
           Inr (dprintf (fd t) (''BUSY SIGNAL'' @ crlf) (set_state a TU_BUSY_SIGNAL w), 0) \<and>
         \<not> p2_consistent (dprintf (fd t) (''BUSY SIGNAL'' @ crlf) (set_state a TU_BUSY_SIGNAL w))"
proof -
  define w' where "w' = dprintf (fd t) (''BUSY SIGNAL'' @ crlf) (set_state a TU_BUSY_SIGNAL w)"
  define t' where "t' = t\<lparr>state := TU_BUSY_SIGNAL\<rparr>"
  have d: "tu_dial w (Some a) (Some a) = Inr (w', 0)"
    using assms(1) by (simp add: tu_dial_def bind_def w'_def)
  have l: "load w' a = Inr t'"
    using assms(1) by (simp add: w'_def t'_def load_dprintf set_state_def load_modify_same)
  have m: "Some t' \<in> set (heap w')"
    using load_live [OF l] by (metis nth_mem)
  have "\<not> tu_consistent w' t'"
    using assms(2) by (simp add: tu_consistent_def t'_def)
  with m have "\<not> p2_consistent w'"
    unfolding p2_consistent_def list_all_iff by force
  with d show ?thesis
    by (simp add: w'_def)
qed

text \<open>
  The call between descriptors 4 and 5 is reached from the empty exchange and is
  consistent; then the client on descriptor 4 sends \<open>dial 4\<close>.
\<close>

theorem self_dial_in_call:
  "run (pbx_init 4 8) [Connect 4, Connect 5, Command 0 ''pickup'', Command 0 ''dial 5'',
     Command 1 ''pickup''] = Inr in_call \<and>
   p2_consistent in_call \<and>
   service_command in_call (Some 0) ''dial 4'' =
     Inr (dprintf 4 (''BUSY SIGNAL'' @ crlf) (set_state 0 TU_BUSY_SIGNAL in_call)) \<and>
   load (dprintf 4 (''BUSY SIGNAL'' @ crlf) (set_state 0 TU_BUSY_SIGNAL in_call)) 0 =
     Inr \<lparr>fd = 4, target = Some 1, state = TU_BUSY_SIGNAL, ref_count = 2\<rparr> \<and>
   \<not> p2_consistent (dprintf 4 (''BUSY SIGNAL'' @ crlf) (set_state 0 TU_BUSY_SIGNAL in_call))"
proof -
  have s: "service_command in_call (Some 0) ''dial 4'' =
     Inr (dprintf 4 (''BUSY SIGNAL'' @ crlf) (set_state 0 TU_BUSY_SIGNAL in_call))"
    by code_simp
  have l: "load (dprintf 4 (''BUSY SIGNAL'' @ crlf) (set_state 0 TU_BUSY_SIGNAL in_call)) 0 =
     Inr \<lparr>fd = 4, target = Some 1, state = TU_BUSY_SIGNAL, ref_count = 2\<rparr>"
    by code_simp
  show ?thesis
    using self_dial_breaks_pairing [OF load_in_call(1)] in_call_reached in_call_consistent s l
    by simp
qed

section \<open>Registration and the reference count\<close>

text \<open>
  C3 says that a successful registration adds one to the reference count of the TU and
  sends it \<open>ON HOOK <ext>\<close>. The notification is sent, but \<open>pbx_register\<close> never
  touches a TU: the whole store of TUs, reference counts included, is as before.
\<close>

theorem register_keeps_ref_count:
  assumes "pbx_register w tu ext = (w', 0)"
  shows "heap w' = heap w \<and> sent w' = sent w @ [(ext, ''ON HOOK '' @ show_int ext @ crlf)]"
  using assms by (auto simp add: pbx_register_def dprintf_def split: option.splits)

text \<open>
  A TU initialised for descriptor 4 has the count 1, and still has it once registered.
\<close>

theorem register_fresh_tu:
  "tu_init (pbx_init 4 8) 4 =
     (\<lparr>heap = [Some \<lparr>fd = 4, target = None, state = TU_ON_HOOK, ref_count = 1\<rparr>],
       PBX_REGISTRY = [None, None, None, None], sent = [], closed = [], mem_avail = 7\<rparr>, Some 0) \<and>
   pbx_register (fst (tu_init (pbx_init 4 8) 4)) (Some 0) 4 = (one_idle, 0) \<and>
   heap one_idle = [Some \<lparr>fd = 4, target = None, state = TU_ON_HOOK, ref_count = 1\<rparr>] \<and>
   sent one_idle = [(4, ''ON HOOK 4'' @ crlf)]"
proof -
  have i: "tu_init (pbx_init 4 8) 4 =
     (\<lparr>heap = [Some \<lparr>fd = 4, target = None, state = TU_ON_HOOK, ref_count = 1\<rparr>],
       PBX_REGISTRY = [None, None, None, None], sent = [], closed = [], mem_avail = 7\<rparr>, Some 0)"
    by code_simp
  have r: "pbx_register (fst (tu_init (pbx_init 4 8) 4)) (Some 0) 4 = (one_idle, 0)"
    by code_simp
  show ?thesis
    using i r register_keeps_ref_count [OF r] show_int_examples by simp
qed

section \<open>Commands that write nothing\<close>

text \<open>
  C4 says that every command, the no-ops included, writes exactly one line with the
  resulting state to the TU that issued it. Two commands write nothing at all and leave
  the whole memory as it was: \<open>hangup\<close> on a TU that is on hook (it returns 0), and
  \<open>chat\<close> on a TU that is not connected (it returns \<open>-1\<close>).
\<close>

theorem silent_commands:
  assumes "load w a = Inr t"
  shows "(state t = TU_ON_HOOK \<longrightarrow> tu_hangup w (Some a) = Inr (w, 0)) \<and>
         (state t \<noteq> TU_CONNECTED \<longrightarrow> tu_chat w (Some a) msg = Inr (w, - 1))"
  using assms by (simp add: tu_hangup_def tu_chat_def bind_def)

theorem silent_commands_on_hook:
  "load one_idle 0 = Inr \<lparr>fd = 4, target = None, state = TU_ON_HOOK, ref_count = 1\<rparr> \<and>
   tu_hangup one_idle (Some 0) = Inr (one_idle, 0) \<and>
   tu_chat one_idle (Some 0) ''hi'' = Inr (one_idle, - 1)"
  using silent_commands [OF load_one_idle, of "''hi''"] load_one_idle by simp

text \<open>The same through the service loop.\<close>

lemma silent_lines_on_hook:
  "service_command one_idle (Some 0) ''hangup'' = Inr one_idle"
  "service_command one_idle (Some 0) ''chat hi'' = Inr one_idle"
  by code_simp+

section \<open>Chat\<close>

text \<open>
  C5, as the code has it. A connected TU whose peer is another live TU sends
  \<open>chat (msg)\<close>: the peer's descriptor receives the one line \<open>chat <msg>\<close> with the
  verb in lower case, ended by CR LF; then the sender receives its own
  \<open>CONNECTED <peer>\<close>; nothing else changes, so both TUs keep their states, and the
  call returns 0.
\<close>

theorem chat_line_lower_case:
  assumes "load w a = Inr t" and "state t = TU_CONNECTED" and "target t = Some b"
    and "a \<noteq> b" and "load w b = Inr p"
  shows "tu_chat w (Some a) msg =
         Inr (w\<lparr>sent := sent w @ [(fd p, ''chat '' @ msg @ crlf),
                                   (fd t, ''CONNECTED '' @ show_int (fd p) @ crlf)]\<rparr>, 0)"
proof -
  have "tu_chat w (Some a) msg =
        Inr (dprintf (fd t) (''CONNECTED '' @ show_int (fd p) @ crlf)
               (dprintf (fd p) (''chat '' @ msg @ crlf) w), 0)"
    using assms by (simp add: tu_chat_def bind_def deref_def chat_notify_def load_dprintf)
  then show ?thesis
    by (simp add: dprintf_def)
qed

theorem chat_line_lower_case_witness:
  "load in_call 0 = Inr \<lparr>fd = 4, target = Some 1, state = TU_CONNECTED, ref_count = 2\<rparr> \<and>
   load in_call 1 = Inr \<lparr>fd = 5, target = Some 0, state = TU_CONNECTED, ref_count = 2\<rparr> \<and>
   tu_chat in_call (Some 0) ''hi'' =
     Inr (in_call\<lparr>sent := sent in_call @ [(5, ''chat hi'' @ crlf), (4, ''CONNECTED 5'' @ crlf)]\<rparr>, 0)"
  using chat_line_lower_case [OF load_in_call(1) _ _ _ load_in_call(2), of "''hi''"]
    load_in_call show_int_examples by simp

text \<open>
  C5 as stated fails: in the call between descriptors 4 and 5, the TU on 4 chats
  \<open>hi\<close>, and the lines of descriptor 5 are not the earlier ones followed by
  \<open>CHAT hi\<close>.
\<close>

theorem chat_line_upper_case_counterexample:
  "tu_chat in_call (Some 0) ''hi'' =
     Inr (in_call\<lparr>sent := sent in_call @ [(5, ''chat hi'' @ crlf), (4, ''CONNECTED 5'' @ crlf)]\<rparr>, 0) \<and>
   lines_to 5 (in_call\<lparr>sent := sent in_call @ [(5, ''chat hi'' @ crlf), (4, ''CONNECTED 5'' @ crlf)]\<rparr>)
     \<noteq> lines_to 5 in_call @ [''CHAT hi'' @ crlf]"
  by code_simp

section \<open>The argument of dial\<close>

text \<open>
  The scanning loop leaves a line \<open>dial <arg>\<close> whose argument holds no space as the
  two strings \<open>dial\<close> and \<open><arg>\<close>.
\<close>

lemma off_hook_reached:
  "run (pbx_init 4 8) [Connect 4, Connect 5, Command 0 ''pickup''] = Inr off_hook"
  by code_simp

lemma scan_no_space:
  "argc = 1 \<Longrightarrow> c_str buf 0 \<noteq> ''chat'' \<Longrightarrow> CHR '' '' \<notin> set (drop cur buf) \<Longrightarrow>
   scan_args buf cur argc a2 = (buf, argc, a2)"
proof (induction buf cur argc a2 rule: scan_args.induct)
  case (1 buf cur argc arg2_start)
  show ?case
  proof (cases "cur < length buf \<and> buf ! cur \<noteq> NUL")
    case True
    then have d: "drop cur buf = buf ! cur # drop (cur + 1) buf"
      by (simp add: Cons_nth_drop_Suc)
    have ns: "buf ! cur \<noteq> CHR '' ''" and rest: "CHR '' '' \<notin> set (drop (cur + 1) buf)"
      using "1.prems"(3) d by auto
    have "scan_args buf (cur + 1) argc arg2_start = (buf, argc, arg2_start)"
      using "1.IH"(2) True ns rest "1.prems"(1,2) by simp
    then show ?thesis
      using True ns "1.prems"(1,2) by (subst scan_args.simps) simp
  next
    case False
    then show ?thesis
      by (subst scan_args.simps) auto
  qed
qed

lemma scan_dial:
  assumes "CHR '' '' \<notin> set arg"
  shows "scan_args (''dial '' @ arg) 0 0 None = (''dial'' @ NUL # arg, 1, Some 5)"
proof -
  have r: "scan_args (''dial'' @ NUL # arg) 5 1 (Some 5) = (''dial'' @ NUL # arg, 1, Some 5)"
    using assms by (intro scan_no_space) (simp_all add: c_str_def NUL_def)
  have "scan_args (''dial '' @ arg) 0 0 None = scan_args (''dial'' @ NUL # arg) 5 1 (Some 5)"
    apply (subst scan_args.simps, simp add: NUL_def)
    apply (subst scan_args.simps, simp add: NUL_def)
    apply (subst scan_args.simps, simp add: NUL_def)
    apply (subst scan_args.simps, simp add: NUL_def)
    apply (subst scan_args.simps, simp add: NUL_def)
    apply (simp add: eval_nat_numeral)
    done
  then show ?thesis
    using r by simp
qed

lemma dial_line:
  assumes "CHR '' '' \<notin> set arg" and "NUL \<notin> set arg" and "atoi arg = Some ext"
  shows "service_command w tu (''dial '' @ arg) = bind (pbx_dial w tu ext) (\<lambda>(w', r). Inr w')"
proof -
  have a0: "c_str (''dial'' @ NUL # arg) 0 = ''dial''"
    by (simp add: c_str_def NUL_def)
  have "takeWhile (\<lambda>c. c \<noteq> NUL) arg = arg"
    using assms(2) by (auto simp add: takeWhile_eq_all_conv)
  then have a1: "c_str (''dial'' @ NUL # arg) 5 = arg"
    by (simp add: c_str_def)
  show ?thesis
    unfolding service_command_def scan_dial [OF assms(1)]
    using assms(3) a0 a1 by simp
qed

lemma find_ext_none:
  "(\<forall>p\<in>set reg. \<exists>n. tu_fileno w p = Inr n \<and> n \<noteq> ext) \<Longrightarrow> find_ext w reg ext = Inr None"
  by (induction reg) (auto simp add: bind_def)




text \<open>
  What \<open>atoi\<close> makes of an argument: white space is skipped, a sign is read, the digits
  are read as far as they go, no digit gives 0, and a value beyond \<open>int\<close> gives nothing.
\<close>

lemma atoi_examples:
  "atoi ''5abc'' = Some 5"
  "atoi ''abc'' = Some 0"
  "atoi [CHR 0x09, CHR ''5''] = Some 5"
  "atoi ''-7x'' = Some (- 7)"
  "atoi ''2147483647'' = Some 2147483647"
  "atoi ''4294967301'' = None"
  by code_simp+




text \<open>
  The condition on a connected TU cannot be dropped. A TU in \<open>TU_CONNECTED\<close> whose
  peer field is \<open>NULL\<close> re-emits its state by reading \<open>tu->target->fd\<close>; and such a
  TU is reached once a TU in a call has dialled itself (see the section on dialling
  one's own extension): here
  the TU on descriptor 4 does so, hangs up, calls descriptor 6, loses its link when
  descriptor 5 hangs up, and is connected again when descriptor 6 answers.
\<close>

lemma dial_in_peerless_call:
  assumes "CHR '' '' \<notin> set arg" and "NUL \<notin> set arg" and "atoi arg = Some ext"
    and "first_slot (\<lambda>p. p = Some a) (PBX_REGISTRY w) = Some i"
    and "load w a = Inr t" and "state t = TU_CONNECTED" and "target t = None"
    and "\<forall>p\<in>set (PBX_REGISTRY w). \<exists>n. tu_fileno w p = Inr n \<and> n \<noteq> ext"
  shows "service_command w (Some a) (''dial '' @ arg) = Inl Null_Deref"
proof -
  have "find_ext w (PBX_REGISTRY w) ext = Inr None"
    using assms(8) by (rule find_ext_none)
  then have "pbx_dial w (Some a) ext = Inl Null_Deref"
    using assms(4-7)
    by (simp add: pbx_dial_def tu_dial_def dial_notify_def deref_def bind_def)
  then show ?thesis
    using dial_line [OF assms(1-3)] by (simp add: bind_def)
qed

lemma peerless_call_reached:
  "run (pbx_init 4 8)
     [Connect 4, Connect 5, Connect 6, Command 0 ''pickup'', Command 0 ''dial 5'',
      Command 1 ''pickup'', Command 0 ''dial 4'', Command 0 ''hangup'', Command 0 ''pickup'',
      Command 0 ''dial 6'', Command 1 ''hangup'', Command 2 ''pickup'', Command 0 ''dial abc'']
   = Inl Null_Deref"
  by code_simp

section \<open>Pickup, then hangup\<close>

text \<open>
  C8. A live TU that is on hook picks up and hangs up: both calls return 0, the client
  has received exactly \<open>DIAL TONE\<close> and then \<open>ON HOOK <ext>\<close>, and nothing else in
  the memory has changed, so the TU is on hook again with every field as before. (It
  holds whatever the peer field is; an on-hook TU with no peer is the case of the claim.)
\<close>

theorem pickup_then_hangup:
  assumes "load w a = Inr t" and "state t = TU_ON_HOOK"
  shows "bind (tu_pickup w (Some a)) (\<lambda>(w1, r1). tu_hangup w1 (Some a)) =
         Inr (w\<lparr>sent := sent w @ [(fd t, ''DIAL TONE'' @ crlf),
                                   (fd t, ''ON HOOK '' @ show_int (fd t) @ crlf)]\<rparr>, 0)"
proof -
  let ?w1 = "dprintf (fd t) (''DIAL TONE'' @ crlf) (set_state a TU_DIAL_TONE w)"
  have p: "tu_pickup w (Some a) = Inr (?w1, 0)"
    using assms by (simp add: tu_pickup_def bind_def)
  have l1: "load ?w1 a = Inr (t\<lparr>state := TU_DIAL_TONE\<rparr>)"
    using assms(1) by (simp add: load_dprintf set_state_def load_modify_same)
  have h: "tu_hangup ?w1 (Some a) =
           Inr (dprintf (fd t) (''ON HOOK '' @ show_int (fd t) @ crlf)
                  (set_state a TU_ON_HOOK ?w1), 0)"
    using l1 by (simp add: tu_hangup_def bind_def)
  have undo: "set_state a TU_ON_HOOK (set_state a TU_DIAL_TONE w) = w"
    using assms by (simp add: set_state_def modify_modify modify_same)
  have "set_state a TU_ON_HOOK ?w1 = dprintf (fd t) (''DIAL TONE'' @ crlf) w"
    using undo by (simp add: set_state_def modify_dprintf)
  then show ?thesis
    using p h by (simp add: bind_def dprintf_def)
qed

theorem pickup_then_hangup_witness:
  "load one_idle 0 = Inr \<lparr>fd = 4, target = None, state = TU_ON_HOOK, ref_count = 1\<rparr> \<and>
   bind (tu_pickup one_idle (Some 0)) (\<lambda>(w1, r1). tu_hangup w1 (Some 0)) =
   Inr (one_idle\<lparr>sent := sent one_idle @ [(4, ''DIAL TONE'' @ crlf), (4, ''ON HOOK 4'' @ crlf)]\<rparr>, 0)"
  using pickup_then_hangup [OF load_one_idle] load_one_idle show_int_examples by simp

section \<open>Null telephone units\<close>

text \<open>
  C10. Called with a \<open>NULL\<close> TU, each of \<open>tu_dial\<close>, \<open>tu_pickup\<close>, \<open>tu_hangup\<close> and
  \<open>tu_chat\<close> returns \<open>-1\<close> and leaves the whole memory as it was (no TU changes, nothing
  is written to any descriptor), whatever the other arguments are; \<open>tu_fileno\<close> of
  \<open>NULL\<close> is \<open>-1\<close>.
\<close>

theorem null_tu_operations:
  "tu_dial w None tgt = Inr (w, - 1) \<and>
   tu_pickup w None = Inr (w, - 1) \<and>
   tu_hangup w None = Inr (w, - 1) \<and>
   tu_chat w None msg = Inr (w, - 1) \<and>
   tu_fileno w None = Inr (- 1)"
  by (simp add: tu_dial_def tu_pickup_def tu_hangup_def tu_chat_def tu_fileno_def)

theorem null_tu_operations_witness:
  "tu_dial in_call None (Some 1) = Inr (in_call, - 1) \<and>
   tu_pickup in_call None = Inr (in_call, - 1) \<and>
   tu_hangup in_call None = Inr (in_call, - 1) \<and>
   tu_chat in_call None ''hi'' = Inr (in_call, - 1) \<and>
   tu_fileno in_call None = Inr (- 1)"
  using null_tu_operations [of in_call "Some 1" "''hi''"] by simp

section \<open>Extensions are descriptors\<close>

text \<open>No operation ever assigns to the field \<open>fd\<close> of a TU that stays alive.\<close>

lemma kept_refl: "kept xs xs"
  by (simp add: kept_def)

lemma kept_trans: "kept xs ys \<Longrightarrow> kept ys zs \<Longrightarrow> kept xs zs"
  unfolding kept_def by (metis le_trans less_le_trans)

lemma kept_free: "kept xs (xs[a := None])"
  by (cases "a < length xs") (auto simp add: kept_def nth_list_update list_update_beyond)

lemma kept_append: "kept xs (xs @ zs)"
  by (simp add: kept_def nth_append)

lemma fds_modify: "(\<And>t. fd (f t) = fd t) \<Longrightarrow> fds (modify a f w) = fds w"
proof (cases "a < length (heap w)")
  case True
  assume "\<And>t. fd (f t) = fd t"
  then have "map_option fd (map_option f (heap w ! a)) = map_option fd (heap w ! a)"
    by (cases "heap w ! a") simp_all
  then show ?thesis
    using True by (simp add: fds_def modify_def map_update list_update_same_conv)
next
  case False
  then show ?thesis
    by (simp add: fds_def modify_def list_update_beyond)
qed

lemma fds_simps [simp]:
  "fds (set_state a s w) = fds w"
  "fds (set_target a p w) = fds w"
  "fds (set_ref_count a n w) = fds w"
  "fds (dprintf m l w) = fds w"
  "fds (close m w) = fds w"
  "fds (w\<lparr>PBX_REGISTRY := reg\<rparr>) = fds w"
  by (simp_all add: set_state_def set_target_def set_ref_count_def fds_modify)
     (simp_all add: fds_def dprintf_def close_def)

lemma fds_free: "fds (free a w) = (fds w)[a := None]"
  by (simp add: fds_def free_def map_update)

lemma bind_Inr: "bind m f = Inr y \<Longrightarrow> \<exists>x. m = Inr x \<and> f x = Inr y"
  by (cases m) (simp_all add: bind_def)

lemma tu_ref_fds: "tu_ref w p = Inr w' \<Longrightarrow> fds w' = fds w"
  by (auto simp add: tu_ref_def dest!: bind_Inr split: if_splits)

lemma tu_unref_fds: "tu_unref w p = Inr w' \<Longrightarrow> kept (fds w) (fds w')"
  by (auto simp add: tu_unref_def Let_def fds_free kept_free kept_refl dest!: bind_Inr split: if_splits)

lemma dial_notify_fds: "dial_notify w t = Inr w' \<Longrightarrow> fds w' = fds w"
  by (auto simp add: dial_notify_def dest!: bind_Inr split: if_splits)

lemma pickup_notify_fds: "pickup_notify w t = Inr w' \<Longrightarrow> fds w' = fds w"
  by (auto simp add: pickup_notify_def dest!: bind_Inr split: if_splits)

lemma chat_notify_fds: "chat_notify w t = Inr w' \<Longrightarrow> fds w' = fds w"
  by (auto simp add: chat_notify_def dest!: bind_Inr split: if_splits)

lemma tu_dial_fds: "tu_dial w tu tgt = Inr (w', r) \<Longrightarrow> fds w' = fds w"
  by (auto simp add: tu_dial_def Let_def dest!: bind_Inr dial_notify_fds tu_ref_fds
      split: option.splits if_splits)

lemma tu_pickup_fds: "tu_pickup w tu = Inr (w', r) \<Longrightarrow> fds w' = fds w"
  by (auto simp add: tu_pickup_def Let_def dest!: bind_Inr pickup_notify_fds
      split: option.splits if_splits)

lemma tu_chat_fds: "tu_chat w tu msg = Inr (w', r) \<Longrightarrow> fds w' = fds w"
  by (auto simp add: tu_chat_def Let_def dest!: bind_Inr chat_notify_fds
      split: option.splits if_splits)

lemma tu_unref_kept: "tu_unref w p = Inr w' \<Longrightarrow> kept xs (fds w) \<Longrightarrow> kept xs (fds w')"
  using tu_unref_fds kept_trans by blast

lemma bind_simps [simp]: "bind (Inr x) f = f x" "bind (Inl e) f = Inl e"
  by (simp_all add: bind_def)

lemma hangup_tail:
  assumes "bind (tu_unref w5 p) (\<lambda>w6. bind (tu_unref (set_target a None w6) q) (\<lambda>w7. Inr (w7, 0::int)))
           = Inr (w', r)"
  shows "kept (fds w5) (fds w')"
proof -
  obtain w6 where u1: "tu_unref w5 p = Inr w6"
    and rest: "bind (tu_unref (set_target a None w6) q) (\<lambda>w7. Inr (w7, 0::int)) = Inr (w', r)"
    using bind_Inr [OF assms] by blast
  obtain w7 where u2: "tu_unref (set_target a None w6) q = Inr w7"
    and "(Inr (w7, 0::int) :: fault + pbx_world \<times> int) = Inr (w', r)"
    using bind_Inr [OF rest] by blast
  then have "w7 = w'"
    by simp
  then show ?thesis
    using tu_unref_kept [OF u2, of "fds w5"] tu_unref_fds [OF u1] by simp
qed

lemma tu_hangup_fds:
  assumes "tu_hangup w tu = Inr (w', r)"
  shows "kept (fds w) (fds w')"
proof (cases tu)
  case None
  then show ?thesis
    using assms by (simp add: tu_hangup_def kept_refl)
next
  case (Some a)
  then obtain t where l: "load w a = Inr t"
    using assms by (cases "load w a") (simp_all add: tu_hangup_def)
  consider (paired) "state t = TU_CONNECTED \<or> state t = TU_RINGING"
    | (ring_back) "state t = TU_RING_BACK"
    | (alone) "state t = TU_DIAL_TONE \<or> state t = TU_BUSY_SIGNAL \<or> state t = TU_ERROR"
    | (on_hook) "state t = TU_ON_HOOK"
    by (cases "state t") auto
  then show ?thesis
  proof cases
    case paired
    then obtain b p where d: "deref w (target t) = Inr (b, p)" and "b \<noteq> a"
      using assms Some l
      by (cases "deref w (target t)") (auto simp add: tu_hangup_def split: if_splits)
    then have "kept (fds (dprintf (fd p) (''DIAL TONE'' @ crlf)
                 (dprintf (fd t) (''ON HOOK '' @ show_int (fd t) @ crlf)
                   (set_target b None (set_state b TU_DIAL_TONE (set_state a TU_ON_HOOK w))))))
               (fds w')"
      using assms Some l paired by (intro hangup_tail [of _ "Some b" a "Some a" w' r])
        (simp add: tu_hangup_def Let_def)
    then show ?thesis
      by simp
  next
    case ring_back
    then obtain b p where d: "deref w (target t) = Inr (b, p)" and "b \<noteq> a"
      using assms Some l
      by (cases "deref w (target t)") (auto simp add: tu_hangup_def split: if_splits)
    then have "kept (fds (dprintf (fd p) (''ON HOOK '' @ show_int (fd p) @ crlf)
                 (dprintf (fd t) (''ON HOOK '' @ show_int (fd t) @ crlf)
                   (set_target b None (set_state b TU_ON_HOOK (set_state a TU_ON_HOOK w))))))
               (fds w')"
      using assms Some l ring_back by (intro hangup_tail [of _ "Some b" a "Some a" w' r])
        (simp add: tu_hangup_def Let_def)
    then show ?thesis
      by simp
  next
    case alone
    then show ?thesis
      using assms Some l by (auto simp add: tu_hangup_def kept_refl)
  next
    case on_hook
    then show ?thesis
      using assms Some l by (auto simp add: tu_hangup_def kept_refl)
  qed
qed

lemma pbx_dial_fds: "pbx_dial w tu ext = Inr (w', r) \<Longrightarrow> fds w' = fds w"
  by (auto simp add: pbx_dial_def dest!: bind_Inr tu_dial_fds split: option.splits)

lemma pbx_unregister_fds:
  assumes "pbx_unregister w tu = Inr (w', r)"
  shows "kept (fds w) (fds w')"
proof (cases "first_slot (\<lambda>p. p = tu) (PBX_REGISTRY w)")
  case None
  then show ?thesis
    using assms by (simp add: pbx_unregister_def kept_refl)
next
  case (Some i)
  then obtain a t w2 where "deref w tu = Inr (a, t)"
    and body: "(if state t \<noteq> TU_CONNECTED \<and> state t \<noteq> TU_RINGING \<and> state t \<noteq> TU_RING_BACK
                then bind (tu_hangup w tu) (\<lambda>(w1, r). tu_unref w1 tu)
                else bind (tu_hangup w tu) (\<lambda>(w1, r). Inr w1)) = Inr w2"
    and w': "w' = w2\<lparr>PBX_REGISTRY := (PBX_REGISTRY w2)[i := None]\<rparr>"
    using assms by (auto simp add: pbx_unregister_def dest!: bind_Inr)
  obtain w1 x where h: "tu_hangup w tu = Inr (w1, x)"
    and u: "w2 = w1 \<or> tu_unref w1 tu = Inr w2"
    using body by (auto dest!: bind_Inr split: if_splits)
  have "kept (fds w) (fds w2)"
    using u tu_hangup_fds [OF h] tu_unref_kept by blast
  then show ?thesis
    using w' by simp
qed

lemma tu_init_fds: "tu_init w n = (w1, tu) \<Longrightarrow> kept (fds w) (fds w1)"
  by (auto simp add: tu_init_def fds_def kept_refl kept_append split: if_splits)

lemma pbx_register_fds: "pbx_register w tu ext = (w', r) \<Longrightarrow> fds w' = fds w"
  by (auto simp add: pbx_register_def split: option.splits)

lemma service_register_fds:
  assumes "service_register w connfd = (w', tu)"
  shows "kept (fds w) (fds w')"
proof -
  obtain w1 p where i: "tu_init w connfd = (w1, p)"
    by (cases "tu_init w connfd")
  obtain w2 r where g: "pbx_register w1 p connfd = (w2, r)"
    by (cases "pbx_register w1 p connfd")
  have "fds w' = fds w1"
    using assms i g pbx_register_fds [OF g]
    by (cases p) (auto simp add: service_register_def split: if_splits)
  then show ?thesis
    using tu_init_fds [OF i] by simp
qed

lemma service_command_fds:
  assumes "service_command w tu client_msg = Inr w'"
  shows "kept (fds w) (fds w')"
proof -
  have "fds w' = fds w \<or> kept (fds w) (fds w')"
    using assms
    by (auto simp add: service_command_def Let_def
        dest!: bind_Inr tu_pickup_fds tu_hangup_fds pbx_dial_fds tu_chat_fds
        split: prod.splits if_splits option.splits)
  then show ?thesis
    using kept_refl by auto
qed

lemma exec_fds: "exec w e = Inr w' \<Longrightarrow> kept (fds w) (fds w')"
proof (cases e)
  case (Connect connfd)
  assume "exec w e = Inr w'"
  then show ?thesis
    using Connect service_register_fds [of w connfd w' "snd (service_register w connfd)"]
    by (cases "service_register w connfd") auto
next
  case (Command a client_msg)
  assume "exec w e = Inr w'"
  then show ?thesis
    using Command by (simp add: service_command_fds)
next
  case (Disconnect a connfd)
  assume "exec w e = Inr w'"
  then obtain r where "pbx_unregister (close connfd w) (Some a) = Inr (w', r)"
    using Disconnect by (auto simp add: service_exit_def dest!: bind_Inr)
  then show ?thesis
    using pbx_unregister_fds by fastforce
qed

lemma run_fds: "run w es = Inr w' \<Longrightarrow> kept (fds w) (fds w')"
proof (induction es arbitrary: w)
  case Nil
  then show ?case
    by (simp add: kept_refl)
next
  case (Cons e es)
  then obtain w1 where "exec w e = Inr w1" and "run w1 es = Inr w'"
    by (auto dest!: bind_Inr)
  then show ?case
    using exec_fds Cons.IH kept_trans by blast
qed

lemma kept_fd:
  assumes "kept (fds w) (fds w')" and "load w a = Inr t" and "load w' a = Inr t'"
  shows "fd t' = fd t"
proof -
  have a: "a < length (heap w)" "heap w ! a = Some t" "a < length (heap w')" "heap w' ! a = Some t'"
    using load_live assms(2,3) by auto
  then have "fds w ! a = Some (fd t)" and "fds w' ! a = Some (fd t')"
    by (simp_all add: fds_def)
  moreover have "a < length (fds w)"
    using a(1) by (simp add: fds_def)
  then have "fds w' ! a = None \<or> fds w' ! a = fds w ! a"
    using assms(1) unfolding kept_def by blast
  ultimately show ?thesis
    by simp
qed

lemma find_ext_first:
  "find_ext w reg ext = Inr (Some p) \<Longrightarrow>
   \<exists>j<length reg. reg ! j = p \<and> tu_fileno w p = Inr ext \<and>
     (\<forall>k<j. \<exists>n. tu_fileno w (reg ! k) = Inr n \<and> n \<noteq> ext)"
proof (induction reg)
  case Nil
  then show ?case by simp
next
  case (Cons q reg)
  then obtain n where n: "tu_fileno w q = Inr n"
    and rest: "(if n = ext then Inr (Some q) else find_ext w reg ext) = Inr (Some p)"
    by (auto dest!: bind_Inr)
  show ?case
  proof (cases "n = ext")
    case True
    then have "q = p" using rest by simp
    then show ?thesis using n True by (intro exI [of _ 0]) simp
  next
    case False
    then obtain j where j: "j < length reg" "reg ! j = p" "tu_fileno w p = Inr ext"
      "\<forall>k<j. \<exists>n. tu_fileno w (reg ! k) = Inr n \<and> n \<noteq> ext"
      using rest Cons.IH by auto
    have "\<forall>k<Suc j. \<exists>m. tu_fileno w ((q # reg) ! k) = Inr m \<and> m \<noteq> ext"
      using j(4) n False by (auto simp add: nth_Cons')
    then show ?thesis
      using j(1-3) by (intro exI [of _ "Suc j"]) simp
  qed
qed

lemma find_ext_absent:
  "find_ext w reg ext = Inr None \<Longrightarrow> \<forall>p\<in>set reg. \<exists>n. tu_fileno w p = Inr n \<and> n \<noteq> ext"
  by (induction reg) (auto dest!: bind_Inr split: if_splits)

lemma service_register_tu:
  assumes "service_register w connfd = (w', Some a)"
  shows "load w' a = Inr \<lparr>fd = connfd, target = None, state = TU_ON_HOOK, ref_count = 1\<rparr> \<and>
         tu_extension w' (Some a) = Inr connfd \<and>
         sent w' = sent w @ [(connfd, ''ON HOOK '' @ show_int connfd @ crlf)]"
  using assms
  by (auto simp add: service_register_def tu_init_def pbx_register_def tu_extension_def
      tu_fileno_def load_def dprintf_def close_def split: if_splits option.splits)

lemma find_ext_total:
  "(\<forall>p\<in>set reg. \<exists>n. tu_fileno w p = Inr n) \<Longrightarrow> \<exists>r. find_ext w reg ext = Inr r"
  by (induction reg) auto

lemma pbx_dial_found:
  assumes "first_slot (\<lambda>p. p = tu) (PBX_REGISTRY w) = Some i"
    and "find_ext w (PBX_REGISTRY w) ext = Inr found"
  shows "pbx_dial w tu ext =
         bind (tu_dial w tu (case found of None \<Rightarrow> None | Some p \<Rightarrow> p)) (\<lambda>(w', r). Inr (w', 0))"
  using assms by (cases found) (simp_all add: pbx_dial_def)

text \<open>
  C6. The thread of a connection on descriptor \<open>connfd\<close> creates its TU with
  \<open>fd = connfd\<close> and registers it with \<open>ext = connfd\<close>: the TU is sent
  \<open>ON HOOK <connfd>\<close>, and \<open>tu_extension\<close> is \<open>connfd\<close>. Whatever events follow,
  a TU that is still alive has the same \<open>fd\<close>, hence the same extension (the later
  \<open>ON HOOK\<close> lines of \<open>tu_hangup\<close> and \<open>tu_dial\<close> print that field). The scan of
  \<open>pbx_dial\<close> returns whenever every slot can be read; what it finds is the first slot
  whose \<open>tu_fileno\<close> is the number dialled; it finds nothing only if no slot has
  that number; and \<open>pbx_dial\<close> passes what was found to \<open>tu_dial\<close>.
\<close>

theorem extension_is_descriptor:
  "(service_register w connfd = (wa, Some a) \<longrightarrow>
      load wa a = Inr \<lparr>fd = connfd, target = None, state = TU_ON_HOOK, ref_count = 1\<rparr> \<and>
      tu_extension wa (Some a) = Inr connfd \<and>
      sent wa = sent w @ [(connfd, ''ON HOOK '' @ show_int connfd @ crlf)]) \<and>
   (run wa es = Inr wb \<and> load wa a = Inr t \<and> load wb a = Inr t' \<longrightarrow>
      fd t' = fd t \<and> tu_extension wb (Some a) = Inr (fd t)) \<and>
   ((\<forall>p\<in>set reg. \<exists>n. tu_fileno wb p = Inr n) \<longrightarrow> (\<exists>r. find_ext wb reg ext = Inr r)) \<and>
   (find_ext wb reg ext = Inr (Some p) \<longrightarrow>
      (\<exists>j<length reg. reg ! j = p \<and> tu_fileno wb p = Inr ext \<and>
         (\<forall>k<j. \<exists>n. tu_fileno wb (reg ! k) = Inr n \<and> n \<noteq> ext))) \<and>
   (find_ext wb reg ext = Inr None \<longrightarrow>
      (\<forall>p\<in>set reg. \<exists>n. tu_fileno wb p = Inr n \<and> n \<noteq> ext)) \<and>
   (first_slot (\<lambda>p. p = tu) (PBX_REGISTRY wb) = Some i \<and>
    find_ext wb (PBX_REGISTRY wb) ext = Inr found \<longrightarrow>
      pbx_dial wb tu ext =
      bind (tu_dial wb tu (case found of None \<Rightarrow> None | Some p \<Rightarrow> p)) (\<lambda>(w', r). Inr (w', 0)))"
proof (intro conjI impI)
  assume "service_register w connfd = (wa, Some a)"
  note r = service_register_tu [OF this]
  show "load wa a = Inr \<lparr>fd = connfd, target = None, state = TU_ON_HOOK, ref_count = 1\<rparr>"
    and "tu_extension wa (Some a) = Inr connfd"
    and "sent wa = sent w @ [(connfd, ''ON HOOK '' @ show_int connfd @ crlf)]"
    using r by simp_all
next
  assume h: "run wa es = Inr wb \<and> load wa a = Inr t \<and> load wb a = Inr t'"
  then show same: "fd t' = fd t"
    using kept_fd [OF run_fds] by blast
  show "tu_extension wb (Some a) = Inr (fd t)"
    using h same by (simp add: tu_extension_def tu_fileno_def)
next
  assume "\<forall>p\<in>set reg. \<exists>n. tu_fileno wb p = Inr n"
  then show "\<exists>r. find_ext wb reg ext = Inr r"
    by (rule find_ext_total)
next
  assume "find_ext wb reg ext = Inr (Some p)"
  then show "\<exists>j<length reg. reg ! j = p \<and> tu_fileno wb p = Inr ext \<and>
         (\<forall>k<j. \<exists>n. tu_fileno wb (reg ! k) = Inr n \<and> n \<noteq> ext)"
    by (rule find_ext_first)
next
  assume "find_ext wb reg ext = Inr None"
  then show "\<forall>p\<in>set reg. \<exists>n. tu_fileno wb p = Inr n \<and> n \<noteq> ext"
    by (rule find_ext_absent)
next
  assume "first_slot (\<lambda>p. p = tu) (PBX_REGISTRY wb) = Some i \<and>
    find_ext wb (PBX_REGISTRY wb) ext = Inr found"
  then show "pbx_dial wb tu ext =
      bind (tu_dial wb tu (case found of None \<Rightarrow> None | Some p \<Rightarrow> p)) (\<lambda>(w', r). Inr (w', 0))"
    using pbx_dial_found by blast
qed

text \<open>
  Descriptor 4 connects to an empty exchange; later, in the call with descriptor 5, its
  extension is still 4, and dialling 5 finds the TU of the second slot.
\<close>

theorem extension_is_descriptor_witness:
  "service_register (pbx_init 4 8) 4 = (one_idle, Some 0) \<and>
   load one_idle 0 = Inr \<lparr>fd = 4, target = None, state = TU_ON_HOOK, ref_count = 1\<rparr> \<and>
   tu_extension one_idle (Some 0) = Inr 4 \<and>
   sent one_idle = sent (pbx_init 4 8) @ [(4, ''ON HOOK 4'' @ crlf)] \<and>
   run one_idle [Connect 5, Command 0 ''pickup'', Command 0 ''dial 5'', Command 1 ''pickup'']
     = Inr in_call \<and>
   load in_call 0 = Inr \<lparr>fd = 4, target = Some 1, state = TU_CONNECTED, ref_count = 2\<rparr> \<and>
   tu_extension in_call (Some 0) = Inr 4 \<and>
   map (tu_fileno in_call) (PBX_REGISTRY in_call) = [Inr 4, Inr 5, Inr (- 1), Inr (- 1)] \<and>
   find_ext in_call (PBX_REGISTRY in_call) 5 = Inr (Some (Some 1)) \<and>
   first_slot (\<lambda>p. p = Some 0) (PBX_REGISTRY in_call) = Some 0 \<and>
   pbx_dial in_call (Some 0) 5 = bind (tu_dial in_call (Some 0) (Some 1)) (\<lambda>(w', r). Inr (w', 0))"
proof -
  have reg: "service_register (pbx_init 4 8) 4 = (one_idle, Some 0)"
    by code_simp
  have go: "run one_idle [Connect 5, Command 0 ''pickup'', Command 0 ''dial 5'',
              Command 1 ''pickup''] = Inr in_call"
    by code_simp
  have m: "map (tu_fileno in_call) (PBX_REGISTRY in_call) = [Inr 4, Inr 5, Inr (- 1), Inr (- 1)]"
    by (simp add: in_call_def tu_fileno_def load_def bind_def)
  have f: "find_ext in_call (PBX_REGISTRY in_call) 5 = Inr (Some (Some 1))"
    by code_simp
  have s: "first_slot (\<lambda>p. p = Some 0) (PBX_REGISTRY in_call) = Some 0"
    by (simp add: in_call_def)
  note T = extension_is_descriptor [where w = "pbx_init 4 8" and connfd = 4 and wa = one_idle
      and a = 0 and es = "[Connect 5, Command 0 ''pickup'', Command 0 ''dial 5'', Command 1 ''pickup'']"
      and wb = in_call
      and t = "\<lparr>fd = 4, target = None, state = TU_ON_HOOK, ref_count = 1\<rparr>"
      and t' = "\<lparr>fd = 4, target = Some 1, state = TU_CONNECTED, ref_count = 2\<rparr>"
      and reg = "PBX_REGISTRY in_call" and ext = 5 and p = "Some 1" and tu = "Some 0" and i = 0
      and found = "Some (Some 1)"]
  have c1: "tu_extension one_idle (Some 0) = Inr 4"
    and c2: "sent one_idle = sent (pbx_init 4 8) @ [(4, ''ON HOOK 4'' @ crlf)]"
    using T [THEN conjunct1] reg show_int_examples by simp_all
  have c3: "tu_extension in_call (Some 0) = Inr 4"
    using T [THEN conjunct2, THEN conjunct1] go load_one_idle load_in_call(1) by simp
  have c4: "pbx_dial in_call (Some 0) 5 =
            bind (tu_dial in_call (Some 0) (Some 1)) (\<lambda>(w', r). Inr (w', 0))"
    using T [THEN conjunct2, THEN conjunct2, THEN conjunct2, THEN conjunct2, THEN conjunct2] s f
    by simp
  show ?thesis
    using reg go m f s load_one_idle load_in_call(1) c1 c2 c3 c4 by simp
qed


end
